theory Spec2Isabelle
  imports Main
begin

section \<open>Python values\<close>

text \<open>
  The program is \<^verbatim>\<open>src/AI-API/app.py\<close>: a Flask application whose handlers call a
  text service (\<^verbatim>\<open>trs\<close>) and hand work to Celery tasks.

  A Python \<^verbatim>\<open>str\<close> is modelled as the byte sequence of its UTF-8 encoding. The program
  only tests strings for emptiness and equality and concatenates them, and all three
  agree with the code-point view under UTF-8.

  An exception is its class name and its message; \<^verbatim>\<open>str(e)\<close> is the message. The
  messages of exceptions raised by the interpreter and by the libraries are abbreviated.
\<close>

datatype exn = Exn (exn_class: string) (exn_message: string)

text \<open>
  The values the program handles: parsed JSON (\<open>PNone\<close> to \<open>PDict\<close>, numbers
  restricted to integers), exception instances (what Celery keeps for a failed task) and
  what a view function returns, a Flask response with its status code.
\<close>

datatype pyval =
    PNone
  | PBool bool
  | PInt int
  | PStr string
  | PList "pyval list"
  | PDict "(string \<times> pyval) list"
  | PExc exn
  | PResponse pyval nat

text \<open>Python truthiness, as \<^verbatim>\<open>if not text\<close> and \<^verbatim>\<open>if task_result.info\<close> test it.\<close>

fun truthy :: "pyval \<Rightarrow> bool" where
  "truthy PNone = False"
| "truthy (PBool b) = b"
| "truthy (PInt i) = (i \<noteq> 0)"
| "truthy (PStr s) = (s \<noteq> [])"
| "truthy (PList xs) = (xs \<noteq> [])"
| "truthy (PDict kvs) = (kvs \<noteq> [])"
| "truthy (PExc e) = True"
| "truthy (PResponse b c) = True"

text \<open>What the JSON encoder accepts: exception and response objects are refused.\<close>

fun serializable :: "pyval \<Rightarrow> bool" where
  "serializable PNone = True"
| "serializable (PBool b) = True"
| "serializable (PInt i) = True"
| "serializable (PStr s) = True"
| "serializable (PList xs) = list_all serializable xs"
| "serializable (PDict kvs) = list_all serializable (map snd kvs)"
| "serializable (PExc e) = False"
| "serializable (PResponse b c) = False"

text \<open>
  \<^verbatim>\<open>str(x)\<close>. It is given where the program can apply it: to a string, to an
  exception instance, to \<^verbatim>\<open>None\<close> and to a boolean. The rendering of numbers,
  containers and response objects is left unspecified.
\<close>

fun py_str :: "pyval \<Rightarrow> string" where
  "py_str (PStr s) = s"
| "py_str (PExc e) = exn_message e"
| "py_str PNone = ''None''"
| "py_str (PBool b) = (if b then ''True'' else ''False'')"

text \<open>\<^verbatim>\<open>data.get(key, default)\<close>: only a dict has the method.\<close>

definition py_get :: "pyval \<Rightarrow> string \<Rightarrow> pyval \<Rightarrow> exn + pyval" where
  "py_get d k dflt =
     (case d of
        PDict kvs \<Rightarrow> Inr (case map_of kvs k of None \<Rightarrow> dflt | Some v \<Rightarrow> v)
      | _ \<Rightarrow> Inl (Exn ''AttributeError'' ''object has no attribute get''))"

text \<open>
  Calling a Python function that declares \<open>n\<close> positional parameters with the
  argument list \<open>args\<close>: the interpreter raises \<^verbatim>\<open>TypeError\<close> before the body runs
  when the numbers differ.
\<close>

definition py_call :: "string \<Rightarrow> nat \<Rightarrow> (pyval list \<Rightarrow> exn + 'a) \<Rightarrow> pyval list \<Rightarrow> exn + 'a" where
  "py_call fname n f args =
     (if length args = n then f args
      else Inl (Exn ''TypeError'' (fname @ ''() called with the wrong number of positional arguments'')))"

text \<open>Sequencing of steps that may raise, and \<^verbatim>\<open>try: ... except Exception as e: ...\<close>.\<close>

definition bind_exn :: "exn + 'a \<Rightarrow> ('a \<Rightarrow> exn + 'b) \<Rightarrow> exn + 'b" where
  "bind_exn m f = (case m of Inl e \<Rightarrow> Inl e | Inr x \<Rightarrow> f x)"

definition try_except :: "exn + 'a \<Rightarrow> (exn \<Rightarrow> exn + 'a) \<Rightarrow> exn + 'a" where
  "try_except block handler = (case block of Inr r \<Rightarrow> Inr r | Inl e \<Rightarrow> handler e)"

section \<open>Flask: requests and responses\<close>

text \<open>
  A request either carries a body that parses as JSON or it does not. The ambient
  \<^verbatim>\<open>request\<close> of a view is a \<open>request option\<close>: \<open>None\<close> outside a request context,
  which is where a Celery worker runs.
\<close>

datatype request = Json pyval | BadBody

definition get_json :: "request option \<Rightarrow> exn + pyval" where
  "get_json ctx =
     (case ctx of
        None \<Rightarrow> Inl (Exn ''RuntimeError'' ''Working outside of request context.'')
      | Some BadBody \<Rightarrow> Inl (Exn ''BadRequest'' ''Failed to decode JSON object'')
      | Some (Json v) \<Rightarrow>
          (if serializable v then Inr v
           else Inl (Exn ''BadRequest'' ''Failed to decode JSON object'')))"

record http_response =
  body :: pyval
  status_code :: nat

text \<open>
  \<^verbatim>\<open>jsonify(d)\<close> needs an application context and a value the JSON encoder accepts;
  the response it builds has status 200. \<^verbatim>\<open>return jsonify(d), c\<close> sets the status.
\<close>

definition jsonify :: "bool \<Rightarrow> pyval \<Rightarrow> exn + http_response" where
  "jsonify app_ctx d =
     (if app_ctx then
        (if serializable d then Inr \<lparr>body = d, status_code = 200\<rparr>
         else Inl (Exn ''TypeError'' ''Object is not JSON serializable''))
      else Inl (Exn ''RuntimeError'' ''Working outside of application context.''))"

definition returning :: "exn + http_response \<Rightarrow> nat \<Rightarrow> exn + http_response" where
  "returning r c = (case r of Inl e \<Rightarrow> Inl e | Inr resp \<Rightarrow> Inr (resp\<lparr>status_code := c\<rparr>))"

definition envelope :: "int \<Rightarrow> string \<Rightarrow> pyval \<Rightarrow> pyval" where
  "envelope c msg d = PDict [(''code'', PInt c), (''message'', PStr msg), (''data'', d)]"

section \<open>The string literals of app.py\<close>

definition ni_hao :: string where
  "ni_hao = [CHR 0xE4, CHR 0xBD, CHR 0xA0, CHR 0xE5, CHR 0xA5, CHR 0xBD]"

definition msg_enter_chinese :: string where
  "msg_enter_chinese = [CHR 0xE8, CHR 0xAF, CHR 0xB7, CHR 0xE8, CHR 0xBE, CHR 0x93, CHR 0xE5,
     CHR 0x85, CHR 0xA5, CHR 0xE8, CHR 0xA6, CHR 0x81, CHR 0xE8, CHR 0xBF, CHR 0x9B, CHR 0xE8,
     CHR 0xA1, CHR 0x8C, CHR 0xE7, CHR 0xBF, CHR 0xBB, CHR 0xE8, CHR 0xAF, CHR 0x91, CHR 0xE7,
     CHR 0x9A, CHR 0x84, CHR 0xE4, CHR 0xB8, CHR 0xAD, CHR 0xE6, CHR 0x96, CHR 0x87]"

definition msg_enter_english :: string where
  "msg_enter_english = [CHR 0xE8, CHR 0xAF, CHR 0xB7, CHR 0xE8, CHR 0xBE, CHR 0x93, CHR 0xE5,
     CHR 0x85, CHR 0xA5, CHR 0xE8, CHR 0xA6, CHR 0x81, CHR 0xE8, CHR 0xBF, CHR 0x9B, CHR 0xE8,
     CHR 0xA1, CHR 0x8C, CHR 0xE7, CHR 0xBF, CHR 0xBB, CHR 0xE8, CHR 0xAF, CHR 0x91, CHR 0xE7,
     CHR 0x9A, CHR 0x84, CHR 0xE8, CHR 0x8B, CHR 0xB1, CHR 0xE6, CHR 0x96, CHR 0x87]"

definition msg_enter_summary_text :: string where
  "msg_enter_summary_text = [CHR 0xE8, CHR 0xAF, CHR 0xB7, CHR 0xE8, CHR 0xBE, CHR 0x93,
     CHR 0xE5, CHR 0x85, CHR 0xA5, CHR 0xE8, CHR 0xA6, CHR 0x81, CHR 0xE6, CHR 0x80, CHR 0xBB,
     CHR 0xE7, CHR 0xBB, CHR 0x93, CHR 0xE7, CHR 0x9A, CHR 0x84, CHR 0xE6, CHR 0x96, CHR 0x87,
     CHR 0xE6, CHR 0x9C, CHR 0xAC]"

definition msg_translated :: string where
  "msg_translated = [CHR 0xE7, CHR 0xBF, CHR 0xBB, CHR 0xE8, CHR 0xAF, CHR 0x91, CHR 0xE6,
     CHR 0x88, CHR 0x90, CHR 0xE5, CHR 0x8A, CHR 0x9F]"

definition msg_summarized :: string where
  "msg_summarized = [CHR 0xE6, CHR 0x80, CHR 0xBB, CHR 0xE7, CHR 0xBB, CHR 0x93, CHR 0xE6,
     CHR 0x88, CHR 0x90, CHR 0xE5, CHR 0x8A, CHR 0x9F]"

definition msg_server_error :: string where
  "msg_server_error = [CHR 0xE6, CHR 0x9C, CHR 0x8D, CHR 0xE5, CHR 0x8A, CHR 0xA1, CHR 0xE5,
     CHR 0x99, CHR 0xA8, CHR 0xE5, CHR 0x87, CHR 0xBA, CHR 0xE9, CHR 0x94, CHR 0x99, CHR 0x2C]"

definition msg_ok :: string where
  "msg_ok = [CHR 0xE6, CHR 0x88, CHR 0x90, CHR 0xE5, CHR 0x8A, CHR 0x9F]"

definition msg_result_failed :: string where
  "msg_result_failed = [CHR 0xE8, CHR 0x8E, CHR 0xB7, CHR 0xE5, CHR 0x8F, CHR 0x96, CHR 0xE4,
     CHR 0xBB, CHR 0xBB, CHR 0xE5, CHR 0x8A, CHR 0xA1, CHR 0xE7, CHR 0xBB, CHR 0x93, CHR 0xE6,
     CHR 0x9E, CHR 0x9C, CHR 0xE5, CHR 0xA4, CHR 0xB1, CHR 0xE8, CHR 0xB4, CHR 0xA5]"

definition msg_enter_text :: string where
  "msg_enter_text = [CHR 0xE8, CHR 0xAF, CHR 0xB7, CHR 0xE8, CHR 0xBE, CHR 0x93, CHR 0xE5,
     CHR 0x85, CHR 0xA5, CHR 0xE6, CHR 0x96, CHR 0x87, CHR 0xE6, CHR 0x9C, CHR 0xAC]"

definition msg_unknown_task_type :: string where
  "msg_unknown_task_type = [CHR 0xE6, CHR 0x9C, CHR 0xAA, CHR 0xE7, CHR 0x9F, CHR 0xA5,
     CHR 0xE4, CHR 0xBB, CHR 0xBB, CHR 0xE5, CHR 0x8A, CHR 0xA1, CHR 0xE7, CHR 0xB1, CHR 0xBB,
     CHR 0xE5, CHR 0x9E, CHR 0x8B]"

definition msg_submitted :: string where
  "msg_submitted = [CHR 0xE4, CHR 0xBB, CHR 0xBB, CHR 0xE5, CHR 0x8A, CHR 0xA1, CHR 0xE5,
     CHR 0xB7, CHR 0xB2, CHR 0xE6, CHR 0x8F, CHR 0x90, CHR 0xE4, CHR 0xBA, CHR 0xA4]"

definition msg_unavailable :: string where
  "msg_unavailable = [CHR 0xE6, CHR 0x9C, CHR 0x8D, CHR 0xE5, CHR 0x8A, CHR 0xA1, CHR 0xE6,
     CHR 0x9A, CHR 0x82, CHR 0xE6, CHR 0x97, CHR 0xB6, CHR 0xE4, CHR 0xB8, CHR 0x8D, CHR 0xE5,
     CHR 0x8F, CHR 0xAF, CHR 0xE7, CHR 0x94, CHR 0xA8]"

definition msg_unknown_error :: string where
  "msg_unknown_error = [CHR 0xE6, CHR 0x9C, CHR 0xAA, CHR 0xE7, CHR 0x9F, CHR 0xA5, CHR 0xE9,
     CHR 0x94, CHR 0x99, CHR 0xE8, CHR 0xAF, CHR 0xAF]"

section \<open>The text service\<close>

text \<open>
  \<^verbatim>\<open>from translations import trs\<close>: the module is not part of app.py, so the service
  is a parameter. app.py calls \<^verbatim>\<open>trs.translate_en_to_zh\<close> and \<^verbatim>\<open>trs.summarize\<close>;
  each may raise.

  Modelled from the spec: \<open>trs_translate_zh_to_en\<close>, the Chinese-to-English capability
  \<^verbatim>\<open>transform(TranslateZhToEn, text)\<close> of the external text service. app.py never
  calls it.
\<close>

record text_service =
  trs_translate_zh_to_en :: "pyval \<Rightarrow> exn + pyval"
  trs_translate_en_to_zh :: "pyval \<Rightarrow> exn + pyval"
  trs_summarize :: "pyval \<Rightarrow> exn + pyval"

section \<open>The synchronous views\<close>

text \<open>
  Each view takes no parameter and reads the ambient request. The \<^verbatim>\<open>except\<close> handler
  builds its response with \<^verbatim>\<open>jsonify\<close> too, so an exception leaves the view only
  where there is no application context.
\<close>

definition trans_zh_to_en :: "text_service \<Rightarrow> request option \<Rightarrow> exn + http_response" where
  "trans_zh_to_en trs ctx =
     try_except
       (bind_exn (get_json ctx) (\<lambda>data.
        bind_exn (py_get data ''text'' (PStr [])) (\<lambda>text.
          if \<not> truthy text then
            returning (jsonify (ctx \<noteq> None) (envelope 400 msg_enter_chinese PNone)) 400
          else
            bind_exn (trs_translate_en_to_zh trs text) (\<lambda>result.
              jsonify (ctx \<noteq> None)
                (envelope 200 msg_translated
                   (PDict [(''original'', text), (''translated'', result)]))))))
       (\<lambda>e. returning
          (jsonify (ctx \<noteq> None) (envelope 500 (msg_server_error @ exn_message e) PNone)) 500)"

definition trans_en_to_zh :: "text_service \<Rightarrow> request option \<Rightarrow> exn + http_response" where
  "trans_en_to_zh trs ctx =
     try_except
       (bind_exn (get_json ctx) (\<lambda>data.
        bind_exn (py_get data ''text'' (PStr [])) (\<lambda>text.
          if \<not> truthy text then
            returning (jsonify (ctx \<noteq> None) (envelope 400 msg_enter_english PNone)) 400
          else
            bind_exn (trs_translate_en_to_zh trs text) (\<lambda>result.
              jsonify (ctx \<noteq> None)
                (envelope 200 msg_translated
                   (PDict [(''original'', text), (''translated'', result)]))))))
       (\<lambda>e. returning
          (jsonify (ctx \<noteq> None) (envelope 500 (msg_server_error @ exn_message e) PNone)) 500)"

definition summarize :: "text_service \<Rightarrow> request option \<Rightarrow> exn + http_response" where
  "summarize trs ctx =
     try_except
       (bind_exn (get_json ctx) (\<lambda>data.
        bind_exn (py_get data ''text'' (PStr [])) (\<lambda>text.
          if \<not> truthy text then
            returning (jsonify (ctx \<noteq> None) (envelope 400 msg_enter_summary_text PNone)) 400
          else
            bind_exn (trs_summarize trs text) (\<lambda>result.
              jsonify (ctx \<noteq> None)
                (envelope 200 msg_summarized
                   (PDict [(''original'', text), (''summarized'', result)]))))))
       (\<lambda>e. returning
          (jsonify (ctx \<noteq> None) (envelope 500 (msg_server_error @ exn_message e) PNone)) 500)"

section \<open>Celery: broker, result backend and workers\<close>

text \<open>
  Celery is a library; what follows is the part of its behaviour that app.py relies on.
  \<^item> The broker holds a queue of messages. \<^verbatim>\<open>task.delay(text)\<close> draws a fresh task id,
    appends one message and returns the id; it raises when the broker cannot be
    reached. It writes nothing to the result backend. The id drawn (a random UUID) is an
    input of the model.
  \<^item> The result backend maps a task id to the state and result last stored for it.
    \<^verbatim>\<open>AsyncResult(task_id).state\<close> is \<^verbatim>\<open>'PENDING'\<close> with result \<^verbatim>\<open>None\<close> for every
    id the backend has no entry for; reading raises when the backend cannot be reached.
  \<^item> A worker takes the message at the head of the queue and runs the task function
    registered under its name. Each message is delivered once. When the function returns,
    Celery stores \<^verbatim>\<open>'SUCCESS'\<close> with the returned value, or \<^verbatim>\<open>'FAILURE'\<close> when the
    value cannot be encoded; when it raises, Celery stores \<^verbatim>\<open>'FAILURE'\<close> with the
    exception. Workers make no step while the broker or the backend cannot be reached.
  Every \<^verbatim>\<open>delay(text)\<close> of app.py passes one positional argument, so a message holds
  one.
\<close>

record message =
  msg_id :: string
  msg_task :: string
  msg_arg :: pyval

record task_meta =
  meta_status :: string
  meta_result :: pyval

record world =
  queue :: "message list"
  backend :: "string \<Rightarrow> task_meta option"
  running :: "message list"
  broker_ok :: bool
  backend_ok :: bool

definition init_world :: world where
  "init_world = \<lparr>queue = [], backend = (\<lambda>k. None), running = [], broker_ok = True, backend_ok = True\<rparr>"

definition delay :: "string \<Rightarrow> pyval \<Rightarrow> string \<Rightarrow> world \<Rightarrow> (exn + string) \<times> world" where
  "delay name arg new_id w =
     (if broker_ok w then
        (Inr new_id, w\<lparr>queue := queue w @ [\<lparr>msg_id = new_id, msg_task = name, msg_arg = arg\<rparr>]\<rparr>)
      else (Inl (Exn ''OperationalError'' ''Error connecting to the broker''), w))"

definition AsyncResult :: "string \<Rightarrow> world \<Rightarrow> (exn + task_meta) \<times> world" where
  "AsyncResult task_id w =
     (if backend_ok w then
        (Inr (case backend w task_id of
                None \<Rightarrow> \<lparr>meta_status = ''PENDING'', meta_result = PNone\<rparr>
              | Some m \<Rightarrow> m), w)
      else (Inl (Exn ''ConnectionError'' ''Error connecting to the result backend''), w))"

definition store_result :: "string \<Rightarrow> string \<Rightarrow> pyval \<Rightarrow> world \<Rightarrow> world" where
  "store_result task_id st res w =
     w\<lparr>backend := (backend w)(task_id := Some \<lparr>meta_status = st, meta_result = res\<rparr>)\<rparr>"

text \<open>\<^verbatim>\<open>self.update_state(state=st)\<close>: no \<^verbatim>\<open>meta\<close> is passed, so the result stored is \<^verbatim>\<open>None\<close>.\<close>

definition update_state :: "string \<Rightarrow> string \<Rightarrow> world \<Rightarrow> world" where
  "update_state self_id st w = store_result self_id st PNone w"

definition mark_as_done :: "string \<Rightarrow> pyval \<Rightarrow> world \<Rightarrow> world" where
  "mark_as_done task_id v w = store_result task_id ''SUCCESS'' v w"

definition mark_as_failure :: "string \<Rightarrow> exn \<Rightarrow> world \<Rightarrow> world" where
  "mark_as_failure task_id e w = store_result task_id ''FAILURE'' (PExc e) w"

section \<open>The asynchronous endpoints\<close>

text \<open>The \<^verbatim>\<open>except Exception\<close> handler of \<^verbatim>\<open>create_async_task\<close> (lines 270 to 275).\<close>

definition unavailable :: "exn + http_response" where
  "unavailable = returning (jsonify True (envelope 500 msg_unavailable PNone)) 500"

text \<open>Lines 260 to 269: the response once \<^verbatim>\<open>delay\<close> has returned the task, or raised.\<close>

definition task_submitted :: "(exn + string) \<times> world \<Rightarrow> (exn + http_response) \<times> world" where
  "task_submitted outcome =
     (case outcome of
        (Inl e, w1) \<Rightarrow> (unavailable, w1)
      | (Inr tid, w1) \<Rightarrow>
          (try_except
             (jsonify True
                (envelope 200 msg_submitted
                   (PDict [(''task_id'', PStr tid),
                           (''status'', PStr ''pending''),
                           (''result_url'', PStr (''/api/task/'' @ tid))])))
             (\<lambda>e. unavailable), w1))"

definition create_async_task ::
    "string \<Rightarrow> request \<Rightarrow> string \<Rightarrow> world \<Rightarrow> (exn + http_response) \<times> world" where
  "create_async_task task_type req new_id w =
     (case bind_exn (get_json (Some req)) (\<lambda>data. py_get data ''text'' (PStr [])) of
        Inl e \<Rightarrow> (unavailable, w)
      | Inr text \<Rightarrow>
          if \<not> truthy text then
            (try_except (returning (jsonify True (envelope 400 msg_enter_text PNone)) 400)
               (\<lambda>e. unavailable), w)
          else if task_type = ''zh_to_en'' then
            task_submitted (delay ''trans_zh_to_en_async'' text new_id w)
          else if task_type = ''en_to_zh'' then
            task_submitted (delay ''trans_en_to_zh_async'' text new_id w)
          else if task_type = ''summarize'' then
            task_submitted (delay ''summarize_async'' text new_id w)
          else
            (try_except (returning (jsonify True (envelope 400 msg_unknown_task_type PNone)) 400)
               (\<lambda>e. unavailable), w))"

definition async_zh_to_en_translation ::
    "request \<Rightarrow> string \<Rightarrow> world \<Rightarrow> (exn + http_response) \<times> world" where
  "async_zh_to_en_translation req new_id w = create_async_task ''zh_to_en'' req new_id w"

definition async_en_to_zh_translation ::
    "request \<Rightarrow> string \<Rightarrow> world \<Rightarrow> (exn + http_response) \<times> world" where
  "async_en_to_zh_translation req new_id w = create_async_task ''en_to_zh'' req new_id w"

definition async_summarize ::
    "request \<Rightarrow> string \<Rightarrow> world \<Rightarrow> (exn + http_response) \<times> world" where
  "async_summarize req new_id w = create_async_task ''summarize'' req new_id w"

text \<open>
  \<^verbatim>\<open>get_task_result\<close>: one read of the backend, then the chain of comparisons on the
  state. An exception inside the \<^verbatim>\<open>try\<close> gives the 500 response.
\<close>

definition render_task :: "task_meta \<Rightarrow> pyval" where
  "render_task task_result =
     (if meta_status task_result = ''PENDING'' then
        PDict [(''status'', PStr ''pending''), (''result'', PNone)]
      else if meta_status task_result = ''PROCESSING'' then
        PDict [(''status'', PStr ''processing''), (''result'', PNone)]
      else if meta_status task_result = ''SUCCESS'' then
        PDict [(''status'', PStr ''completed''), (''result'', meta_result task_result)]
      else
        PDict [(''status'', PStr ''failed''),
               (''result'', PNone),
               (''error'', PStr (if truthy (meta_result task_result)
                                 then py_str (meta_result task_result)
                                 else msg_unknown_error))])"

definition get_task_result :: "string \<Rightarrow> world \<Rightarrow> (exn + http_response) \<times> world" where
  "get_task_result task_id w =
     (case AsyncResult task_id w of
        (task_result, w1) \<Rightarrow>
          (try_except
             (bind_exn task_result (\<lambda>tr. jsonify True (envelope 200 msg_ok (render_task tr))))
             (\<lambda>e. returning (jsonify True (envelope 500 msg_result_failed PNone)) 500), w1))"

section \<open>The Celery tasks\<close>

text \<open>
  Each task function is split where it sleeps: \<open>_begin\<close> is line 281 (289, 296), the
  \<^verbatim>\<open>update_state\<close> call; \<open>_return\<close> is line 284 (291, 298), which calls the
  synchronous view, a function of no parameter (\<^verbatim>\<open>@app.route\<close> returns the function it
  decorates), with one positional argument and outside any request context. A status
  query can run between the two.
\<close>

definition as_pyval :: "http_response \<Rightarrow> pyval" where
  "as_pyval r = PResponse (body r) (status_code r)"

definition trans_zh_to_en_async_begin :: "string \<Rightarrow> world \<Rightarrow> world" where
  "trans_zh_to_en_async_begin self_id w = update_state self_id ''PROCESSING'' w"

definition trans_zh_to_en_async_return :: "text_service \<Rightarrow> pyval \<Rightarrow> exn + pyval" where
  "trans_zh_to_en_async_return trs text =
     bind_exn (py_call ''trans_zh_to_en'' 0 (\<lambda>args. trans_zh_to_en trs None) [text])
       (\<lambda>r. Inr (as_pyval r))"

definition trans_en_to_zh_async_begin :: "string \<Rightarrow> world \<Rightarrow> world" where
  "trans_en_to_zh_async_begin self_id w = update_state self_id ''PROCESSING'' w"

definition trans_en_to_zh_async_return :: "text_service \<Rightarrow> pyval \<Rightarrow> exn + pyval" where
  "trans_en_to_zh_async_return trs text =
     bind_exn (py_call ''trans_en_to_zh'' 0 (\<lambda>args. trans_en_to_zh trs None) [text])
       (\<lambda>r. Inr (as_pyval r))"

definition summarize_async_begin :: "string \<Rightarrow> world \<Rightarrow> world" where
  "summarize_async_begin self_id w = update_state self_id ''PROCESSING'' w"

definition summarize_async_return :: "text_service \<Rightarrow> pyval \<Rightarrow> exn + pyval" where
  "summarize_async_return trs text =
     bind_exn (py_call ''summarize'' 0 (\<lambda>args. summarize trs None) [text])
       (\<lambda>r. Inr (as_pyval r))"

text \<open>The task registry that the three \<^verbatim>\<open>@celery.task(bind=True)\<close> decorators fill.\<close>

definition task_begin :: "string \<Rightarrow> (string \<Rightarrow> world \<Rightarrow> world) option" where
  "task_begin name =
     (if name = ''trans_zh_to_en_async'' then Some trans_zh_to_en_async_begin
      else if name = ''trans_en_to_zh_async'' then Some trans_en_to_zh_async_begin
      else if name = ''summarize_async'' then Some summarize_async_begin
      else None)"

definition task_return :: "text_service \<Rightarrow> string \<Rightarrow> (pyval \<Rightarrow> exn + pyval) option" where
  "task_return trs name =
     (if name = ''trans_zh_to_en_async'' then Some (trans_zh_to_en_async_return trs)
      else if name = ''trans_en_to_zh_async'' then Some (trans_en_to_zh_async_return trs)
      else if name = ''summarize_async'' then Some (summarize_async_return trs)
      else None)"

text \<open>
  A worker step. \<open>worker_dequeue\<close> takes the head of the queue and runs the task up to
  its sleep; a message naming no registered task is discarded. \<open>worker_finish i\<close> lets
  the \<open>i\<close>-th running task run to its end and stores the outcome.
\<close>

definition worker_dequeue :: "world \<Rightarrow> world" where
  "worker_dequeue w =
     (if broker_ok w \<and> backend_ok w then
        (case queue w of
           [] \<Rightarrow> w
         | m # rest \<Rightarrow>
             (case task_begin (msg_task m) of
                None \<Rightarrow> w\<lparr>queue := rest\<rparr>
              | Some begin_task \<Rightarrow>
                  (begin_task (msg_id m) (w\<lparr>queue := rest\<rparr>))\<lparr>running := running w @ [m]\<rparr>))
      else w)"

definition worker_finish :: "text_service \<Rightarrow> nat \<Rightarrow> world \<Rightarrow> world" where
  "worker_finish trs i w =
     (if broker_ok w \<and> backend_ok w \<and> i < length (running w) then
        (let m = running w ! i;
             w1 = w\<lparr>running := take i (running w) @ drop (Suc i) (running w)\<rparr>
         in case task_return trs (msg_task m) of
              None \<Rightarrow> w1
            | Some run_to_end \<Rightarrow>
                (case run_to_end (msg_arg m) of
                   Inl e \<Rightarrow> mark_as_failure (msg_id m) e w1
                 | Inr v \<Rightarrow>
                     if serializable v then mark_as_done (msg_id m) v w1
                     else mark_as_failure (msg_id m)
                            (Exn ''EncodeError'' ''Object is not JSON serializable'') w1))
      else w)"

section \<open>Executions\<close>

text \<open>
  What can happen to the system, one event at a time: a submission to one of the
  asynchronous endpoints (with the id that \<^verbatim>\<open>delay\<close> draws), a worker taking a message,
  a running task ending, a status query, and the broker or backend becoming reachable
  or unreachable.
\<close>

datatype event =
    Submit string request string
  | Dequeue
  | Finish nat
  | Poll string
  | Infra bool bool

fun step :: "text_service \<Rightarrow> world \<Rightarrow> event \<Rightarrow> world" where
  "step trs w (Submit task_type req new_id) = snd (create_async_task task_type req new_id w)"
| "step trs w Dequeue = worker_dequeue w"
| "step trs w (Finish i) = worker_finish trs i w"
| "step trs w (Poll task_id) = snd (get_task_result task_id w)"
| "step trs w (Infra b r) = w\<lparr>broker_ok := b, backend_ok := r\<rparr>"

definition run :: "text_service \<Rightarrow> event list \<Rightarrow> world \<Rightarrow> world" where
  "run trs evs w = foldl (step trs) w evs"

fun submitted_id :: "event \<Rightarrow> string list" where
  "submitted_id (Submit task_type req new_id) = [new_id]"
| "submitted_id e = []"

definition submitted_ids :: "event list \<Rightarrow> string list" where
  "submitted_ids evs = concat (map submitted_id evs)"

text \<open>What a client reads off a response: the \<^verbatim>\<open>status\<close>, \<^verbatim>\<open>result\<close> and \<^verbatim>\<open>error\<close> entries of its data.\<close>

definition data_of :: "exn + http_response \<Rightarrow> pyval option" where
  "data_of r =
     (case r of
        Inr resp \<Rightarrow> (case body resp of PDict kvs \<Rightarrow> map_of kvs ''data'' | _ \<Rightarrow> None)
      | Inl e \<Rightarrow> None)"

definition entry_of :: "string \<Rightarrow> exn + http_response \<Rightarrow> pyval option" where
  "entry_of k r = (case data_of r of Some (PDict kvs) \<Rightarrow> map_of kvs k | _ \<Rightarrow> None)"

definition http_status :: "exn + http_response \<Rightarrow> nat option" where
  "http_status r = (case r of Inr resp \<Rightarrow> Some (status_code resp) | Inl e \<Rightarrow> None)"

definition poll :: "string \<Rightarrow> world \<Rightarrow> exn + http_response" where
  "poll task_id w = fst (get_task_result task_id w)"

section \<open>Notions used in the statements\<close>

text \<open>
  The \<^verbatim>\<open>text\<close> that a handler reads from a request: lines 236 and 237 (72 and 73, 107
  and 108, 141 and 142). It is \<open>Inr t\<close> exactly when the body is a JSON object; \<open>t\<close> is
  the empty string when the object has no \<^verbatim>\<open>text\<close> entry.
\<close>

definition request_text :: "request \<Rightarrow> exn + pyval" where
  "request_text req = bind_exn (get_json (Some req)) (\<lambda>data. py_get data ''text'' (PStr []))"

text \<open>A text service on which the three capabilities succeed and can be told apart.\<close>

definition demo_trs :: text_service where
  "demo_trs = \<lparr>trs_translate_zh_to_en = (\<lambda>t. Inr (PStr ''hello'')),
               trs_translate_en_to_zh = (\<lambda>t. Inr (PStr ''to-chinese'')),
               trs_summarize = (\<lambda>t. Inr (PStr ''summary''))\<rparr>"

text \<open>The Celery task that \<^verbatim>\<open>create_async_task\<close> starts for each of the three kinds (lines 247 to 252).\<close>

definition task_name :: "string \<Rightarrow> string" where
  "task_name task_type =
     (if task_type = ''zh_to_en'' then ''trans_zh_to_en_async''
      else if task_type = ''en_to_zh'' then ''trans_en_to_zh_async''
      else ''summarize_async'')"

text \<open>
  The state stored for a task id, as \<^verbatim>\<open>AsyncResult(task_id).state\<close> reads it from a
  reachable backend, and the transitions the lifecycle allows: none, Pending to
  Processing, Processing to Success or Failure.
\<close>

definition stored_state :: "world \<Rightarrow> string \<Rightarrow> string" where
  "stored_state w task_id =
     (case backend w task_id of None \<Rightarrow> ''PENDING'' | Some m \<Rightarrow> meta_status m)"

definition lifecycle_step :: "string \<Rightarrow> string \<Rightarrow> bool" where
  "lifecycle_step a b =
     (a = b \<or> (a = ''PENDING'' \<and> b = ''PROCESSING'')
            \<or> (a = ''PROCESSING'' \<and> (b = ''SUCCESS'' \<or> b = ''FAILURE'')))"

text \<open>The names in the task registry, and the records the tasks of app.py can leave in the backend.\<close>

definition registered :: "string \<Rightarrow> bool" where
  "registered name = (name \<in> {''trans_zh_to_en_async'', ''trans_en_to_zh_async'', ''summarize_async''})"

definition processing_meta :: task_meta where
  "processing_meta = \<lparr>meta_status = ''PROCESSING'', meta_result = PNone\<rparr>"

definition stored_ok :: "task_meta \<Rightarrow> bool" where
  "stored_ok m =
     (m = processing_meta \<or>
      (meta_status m = ''FAILURE'' \<and> (case meta_result m of PExc e \<Rightarrow> True | _ \<Rightarrow> False)))"

text \<open>
  What a client observes. \<open>terminal_response\<close>: the status is \<^verbatim>\<open>completed\<close> or
  \<^verbatim>\<open>failed\<close>. \<open>outcome_exclusive\<close>: a completed response has a result that is not
  null and no error entry; a failed one has an error that is not null and a null result;
  a pending or processing one has a null result and no error entry; there is no other
  status.
\<close>

definition terminal_response :: "exn + http_response \<Rightarrow> bool" where
  "terminal_response r =
     (entry_of ''status'' r = Some (PStr ''completed'') \<or>
      entry_of ''status'' r = Some (PStr ''failed''))"

definition outcome_exclusive :: "exn + http_response \<Rightarrow> bool" where
  "outcome_exclusive r =
     (if entry_of ''status'' r = Some (PStr ''completed'') then
        entry_of ''result'' r \<noteq> None \<and> entry_of ''result'' r \<noteq> Some PNone \<and>
        entry_of ''error'' r = None
      else if entry_of ''status'' r = Some (PStr ''failed'') then
        entry_of ''error'' r \<noteq> None \<and> entry_of ''error'' r \<noteq> Some PNone \<and>
        entry_of ''result'' r = Some PNone
      else
        (entry_of ''status'' r = Some (PStr ''pending'') \<or>
         entry_of ''status'' r = Some (PStr ''processing'')) \<and>
        entry_of ''result'' r = Some PNone \<and> entry_of ''error'' r = None)"

definition pending_response :: "exn + http_response" where
  "pending_response =
     Inr \<lparr>body = envelope 200 msg_ok (PDict [(''status'', PStr ''pending''), (''result'', PNone)]),
          status_code = 200\<rparr>"

text \<open>
  Two invariants of executions. \<open>inv_ids\<close>: every id in the queue, with a worker or in
  the backend was drawn by a submission, and every record is one the tasks can leave.
  \<open>inv_life\<close>: ids are not repeated in the queue or among the running tasks, a queued
  task has no record yet, and a running task is registered and recorded as Processing.
\<close>

definition inv_ids :: "event list \<Rightarrow> world \<Rightarrow> bool" where
  "inv_ids evs w =
     ((\<forall>m \<in> set (queue w) \<union> set (running w). msg_id m \<in> set (submitted_ids evs)) \<and>
      (\<forall>tid m. backend w tid = Some m \<longrightarrow> tid \<in> set (submitted_ids evs) \<and> stored_ok m))"

definition inv_life :: "world \<Rightarrow> bool" where
  "inv_life w =
     (distinct (map msg_id (queue w)) \<and> distinct (map msg_id (running w)) \<and>
      (\<forall>m \<in> set (queue w). backend w (msg_id m) = None) \<and>
      (\<forall>m \<in> set (running w). backend w (msg_id m) = Some processing_meta \<and> registered (msg_task m)))"



section \<open>Basic facts\<close>

lemma unavailable_eq:
  "unavailable = Inr \<lparr>body = envelope 500 msg_unavailable PNone, status_code = 500\<rparr>"
  by (simp add: unavailable_def jsonify_def returning_def envelope_def)

lemma serializable_envelope [simp]: "serializable (envelope c msg d) = serializable d"
  by (simp add: envelope_def)

lemma request_text_serializable: "request_text req = Inr t \<Longrightarrow> serializable t"
  by (auto simp: request_text_def get_json_def py_get_def bind_exn_def list_all_iff
           split: request.splits if_splits pyval.splits option.splits dest!: map_of_SomeD)

text \<open>
  The last line of each task calls a view that declares no parameter with one argument:
  the call raises before the view's body runs, whatever the text service does.
\<close>

lemma trans_zh_to_en_async_return_raises:
  "trans_zh_to_en_async_return trs t =
     Inl (Exn ''TypeError'' ''trans_zh_to_en() called with the wrong number of positional arguments'')"
  by (simp add: trans_zh_to_en_async_return_def py_call_def bind_exn_def)

lemma trans_en_to_zh_async_return_raises:
  "trans_en_to_zh_async_return trs t =
     Inl (Exn ''TypeError'' ''trans_en_to_zh() called with the wrong number of positional arguments'')"
  by (simp add: trans_en_to_zh_async_return_def py_call_def bind_exn_def)

lemma summarize_async_return_raises:
  "summarize_async_return trs t =
     Inl (Exn ''TypeError'' ''summarize() called with the wrong number of positional arguments'')"
  by (simp add: summarize_async_return_def py_call_def bind_exn_def)

section \<open>The asynchronous zh_to_en task\<close>

text \<open>
  Claim C1 says that an asynchronous zh_to_en task whose text is not empty ends in the
  Success state with the text returned by the service as its result, so that submitting
  the text \<^verbatim>\<open>ni hao\<close> and polling yields \<^verbatim>\<open>completed\<close>. The code does otherwise: for
  every text service, the task submitted with that text, taken by a worker and run to
  its end is stored as a failure, and the status query answers \<^verbatim>\<open>failed\<close> with the
  \<^verbatim>\<open>TypeError\<close> of the call in line 284.
\<close>

theorem async_zh_to_en_task_fails:
  "poll ''T''
     (run trs [Submit ''zh_to_en'' (Json (PDict [(''text'', PStr ni_hao)])) ''T'', Dequeue, Finish 0]
        init_world)
   = Inr \<lparr>body = envelope 200 msg_ok
              (PDict [(''status'', PStr ''failed''), (''result'', PNone),
                      (''error'', PStr ''trans_zh_to_en() called with the wrong number of positional arguments'')]),
           status_code = 200\<rparr>"
  by (simp add: poll_def run_def init_world_def create_async_task_def get_json_def py_get_def
        bind_exn_def ni_hao_def task_submitted_def delay_def jsonify_def try_except_def
        worker_dequeue_def task_begin_def trans_zh_to_en_async_begin_def update_state_def
        store_result_def worker_finish_def task_return_def trans_zh_to_en_async_return_raises
        mark_as_failure_def get_task_result_def AsyncResult_def render_task_def)

section \<open>Rejected submissions\<close>

text \<open>
  Claim C4 as stated gives the 400 response to every submission whose text is empty or
  absent. A body that is not a JSON object has no text either, and the handler answers
  it with the 500 response of line 271: \<^verbatim>\<open>data.get\<close> raises inside the \<^verbatim>\<open>try\<close>.
\<close>

theorem non_object_body_answers_500:
  "create_async_task ''zh_to_en'' (Json PNone) ''T'' init_world =
     (Inr \<lparr>body = envelope 500 msg_unavailable PNone, status_code = 500\<rparr>, init_world)
   \<and> http_status (fst (create_async_task ''zh_to_en'' (Json PNone) ''T'' init_world)) \<noteq> Some 400
   \<and> http_status (fst (create_async_task ''zh_to_en'' BadBody ''T'' init_world)) = Some 500"
  by (simp add: create_async_task_def get_json_def py_get_def bind_exn_def unavailable_def
        jsonify_def returning_def http_status_def)

text \<open>
  Claim C4, as amended: a submission to an asynchronous endpoint whose body is a JSON
  object in which \<^verbatim>\<open>text\<close> is absent or empty (falsy) is answered with the 400 response
  of line 240; a submission whose body is not a JSON object is answered with the 500
  response of line 271. In both cases the broker queue, the result backend and the
  workers are left as they were, and the answer does not depend on the id that
  \<^verbatim>\<open>delay\<close> would have drawn: no task is created and no id is generated.
\<close>

theorem create_async_task_without_text:
  "(request_text req = Inr t \<longrightarrow> \<not> truthy t \<longrightarrow>
      create_async_task task_type req new_id w =
        (Inr \<lparr>body = envelope 400 msg_enter_text PNone, status_code = 400\<rparr>, w))
   \<and> (request_text req = Inl e \<longrightarrow>
      create_async_task task_type req new_id w =
        (Inr \<lparr>body = envelope 500 msg_unavailable PNone, status_code = 500\<rparr>, w))"
  by (simp add: create_async_task_def request_text_def jsonify_def returning_def try_except_def
        unavailable_def)

theorem create_async_task_without_text_witness:
  "create_async_task ''zh_to_en'' (Json (PDict [])) ''id-1'' init_world =
     (Inr \<lparr>body = envelope 400 msg_enter_text PNone, status_code = 400\<rparr>, init_world)
   \<and> create_async_task ''summarize'' (Json (PDict [(''text'', PStr [])])) ''id-2'' init_world =
     (Inr \<lparr>body = envelope 400 msg_enter_text PNone, status_code = 400\<rparr>, init_world)
   \<and> create_async_task ''en_to_zh'' (Json (PList [])) ''id-3'' init_world =
     (Inr \<lparr>body = envelope 500 msg_unavailable PNone, status_code = 500\<rparr>, init_world)"
  using create_async_task_without_text
          [of "Json (PDict [])" "PStr []" "''zh_to_en''" "''id-1''" init_world]
        create_async_task_without_text
          [of "Json (PDict [(''text'', PStr [])])" "PStr []" "''summarize''" "''id-2''" init_world]
        create_async_task_without_text
          [of "Json (PList [])" _ "''en_to_zh''" "''id-3''" init_world
              "Exn ''AttributeError'' ''object has no attribute get''"]
  by (simp add: request_text_def get_json_def py_get_def bind_exn_def)

section \<open>The status query\<close>

text \<open>
  Claim C8: for every task id and every state of the system, the status query leaves the
  state (result backend, queue, workers) unchanged, and asking again in the state it
  leaves gives the same response.
\<close>

theorem get_task_result_read_only:
  "snd (get_task_result task_id w) = w \<and>
   fst (get_task_result task_id (snd (get_task_result task_id w))) = fst (get_task_result task_id w)"
  by (simp add: get_task_result_def AsyncResult_def)

section \<open>Accepted submissions\<close>

text \<open>
  Claim C6: a submission whose body is a JSON object with a non-empty (truthy) \<^verbatim>\<open>text\<close>,
  for one of the three known kinds, made while the broker is reachable, returns the 200
  response whose data holds the task id drawn by \<^verbatim>\<open>delay\<close>, the status
  \<^verbatim>\<open>pending\<close> and the result URL \<^verbatim>\<open>/api/task/\<close> followed by the id. The only change
  of state is the message appended to the queue: no task has started and the backend
  is as it was, so the handler has not waited for any execution.
\<close>

theorem create_async_task_accepts:
  "request_text req = Inr t \<Longrightarrow> truthy t \<Longrightarrow>
   task_type \<in> {''zh_to_en'', ''en_to_zh'', ''summarize''} \<Longrightarrow> broker_ok w \<Longrightarrow>
   create_async_task task_type req new_id w =
     (Inr \<lparr>body = envelope 200 msg_submitted
               (PDict [(''task_id'', PStr new_id),
                       (''status'', PStr ''pending''),
                       (''result_url'', PStr (''/api/task/'' @ new_id))]),
            status_code = 200\<rparr>,
      w\<lparr>queue := queue w @ [\<lparr>msg_id = new_id, msg_task = task_name task_type, msg_arg = t\<rparr>]\<rparr>)"
  by (auto simp add: create_async_task_def request_text_def task_submitted_def delay_def
        jsonify_def try_except_def task_name_def)

theorem create_async_task_accepts_witness:
  "create_async_task ''zh_to_en'' (Json (PDict [(''text'', PStr ni_hao)])) ''T'' init_world =
     (Inr \<lparr>body = envelope 200 msg_submitted
               (PDict [(''task_id'', PStr ''T''),
                       (''status'', PStr ''pending''),
                       (''result_url'', PStr ''/api/task/T'')]),
            status_code = 200\<rparr>,
      init_world\<lparr>queue :=
        [\<lparr>msg_id = ''T'', msg_task = ''trans_zh_to_en_async'', msg_arg = PStr ni_hao\<rparr>]\<rparr>)"
  using create_async_task_accepts
          [of "Json (PDict [(''text'', PStr ni_hao)])" "PStr ni_hao" "''zh_to_en''" init_world "''T''"]
  by (simp add: request_text_def get_json_def py_get_def bind_exn_def ni_hao_def init_world_def
        task_name_def)

section \<open>Unknown kinds\<close>

text \<open>Whatever the request, a task type outside the three known ones changes nothing.\<close>

lemma create_async_task_unknown_unchanged:
  "task_type \<notin> {''zh_to_en'', ''en_to_zh'', ''summarize''} \<Longrightarrow>
   snd (create_async_task task_type req new_id w) = w"
  by (simp add: create_async_task_def split: sum.splits)

text \<open>A body that is not a JSON object is answered with the 500 response, and changes nothing.\<close>

lemma create_async_task_bad_body:
  "request_text req = Inl e \<Longrightarrow> create_async_task task_type req new_id w = (unavailable, w)"
  by (simp add: create_async_task_def request_text_def)

section \<open>The synchronous translation views\<close>

text \<open>
  Claim C9: on every request whose body is a JSON object with a non-empty (truthy)
  \<^verbatim>\<open>text\<close>, the synchronous zh_to_en view and the synchronous en_to_zh view give the
  same response, and the \<^verbatim>\<open>translated\<close> entry of each is what
  \<^verbatim>\<open>trs.translate_en_to_zh\<close> returns for that text (there is no such entry when the
  service raises or returns something JSON cannot hold).
\<close>

theorem sync_translations_agree:
  "request_text req = Inr t \<Longrightarrow> truthy t \<Longrightarrow>
   trans_zh_to_en trs (Some req) = trans_en_to_zh trs (Some req)
   \<and> entry_of ''translated'' (trans_zh_to_en trs (Some req)) =
       (case trs_translate_en_to_zh trs t of
          Inr r \<Rightarrow> if serializable r then Some r else None
        | Inl e \<Rightarrow> None)
   \<and> entry_of ''translated'' (trans_en_to_zh trs (Some req)) =
       (case trs_translate_en_to_zh trs t of
          Inr r \<Rightarrow> if serializable r then Some r else None
        | Inl e \<Rightarrow> None)"
  using request_text_serializable [of req t]
  by (auto simp add: trans_zh_to_en_def trans_en_to_zh_def request_text_def bind_exn_def
        try_except_def jsonify_def returning_def entry_of_def data_of_def envelope_def
        split: sum.splits)

theorem sync_translations_agree_witness:
  "trans_zh_to_en demo_trs (Some (Json (PDict [(''text'', PStr ''hello'')]))) =
     trans_en_to_zh demo_trs (Some (Json (PDict [(''text'', PStr ''hello'')])))
   \<and> entry_of ''translated''
         (trans_zh_to_en demo_trs (Some (Json (PDict [(''text'', PStr ''hello'')])))) =
       Some (PStr ''to-chinese'')
   \<and> entry_of ''translated''
         (trans_en_to_zh demo_trs (Some (Json (PDict [(''text'', PStr ''hello'')])))) =
       Some (PStr ''to-chinese'')"
  using sync_translations_agree
          [of "Json (PDict [(''text'', PStr ''hello'')])" "PStr ''hello''" demo_trs]
  by (simp add: request_text_def get_json_def py_get_def bind_exn_def demo_trs_def)

text \<open>
  Claim C2 says that the zh_to_en operation applies the Chinese-to-English transformation
  to the submitted text. The synchronous zh_to_en view (line 83) calls
  \<^verbatim>\<open>trs.translate_en_to_zh\<close>: on a service whose two translations differ, the text
  \<^verbatim>\<open>ni hao\<close> comes back as the English-to-Chinese output, not as the Chinese-to-English
  one.
\<close>

theorem sync_zh_to_en_uses_en_to_zh:
  "trs_translate_zh_to_en demo_trs (PStr ni_hao) = Inr (PStr ''hello'')
   \<and> trs_translate_en_to_zh demo_trs (PStr ni_hao) = Inr (PStr ''to-chinese'')
   \<and> entry_of ''translated''
         (trans_zh_to_en demo_trs (Some (Json (PDict [(''text'', PStr ni_hao)])))) =
       Some (PStr ''to-chinese'')"
  by (simp add: demo_trs_def trans_zh_to_en_def get_json_def py_get_def bind_exn_def ni_hao_def
        try_except_def jsonify_def entry_of_def data_of_def envelope_def)

section \<open>What each event does to the state\<close>

lemma submit_effect:
  "snd (create_async_task tt req nid w) = w \<or>
   (\<exists>name arg. registered name \<and>
      snd (create_async_task tt req nid w) =
        w\<lparr>queue := queue w @ [\<lparr>msg_id = nid, msg_task = name, msg_arg = arg\<rparr>]\<rparr>)"
  by (auto simp: create_async_task_def task_submitted_def delay_def registered_def
           split: sum.splits)

lemma dequeue_effect:
  "worker_dequeue w = w \<or>
   (\<exists>m rest. queue w = m # rest \<and>
      ((\<not> registered (msg_task m) \<and> worker_dequeue w = w\<lparr>queue := rest\<rparr>) \<or>
       (registered (msg_task m) \<and>
        worker_dequeue w =
          w\<lparr>queue := rest, backend := (backend w)(msg_id m := Some processing_meta),
            running := running w @ [m]\<rparr>)))"
  by (auto simp: worker_dequeue_def task_begin_def registered_def processing_meta_def
        trans_zh_to_en_async_begin_def trans_en_to_zh_async_begin_def summarize_async_begin_def
        update_state_def store_result_def split: list.splits)

lemma finish_effect:
  "worker_finish trs i w = w \<or>
   (\<exists>as m bs. running w = as @ m # bs \<and>
      ((\<not> registered (msg_task m) \<and> worker_finish trs i w = w\<lparr>running := as @ bs\<rparr>) \<or>
       (\<exists>e. worker_finish trs i w =
          w\<lparr>running := as @ bs,
            backend := (backend w)(msg_id m :=
               Some \<lparr>meta_status = ''FAILURE'', meta_result = PExc e\<rparr>)\<rparr>)))"
proof (cases "broker_ok w \<and> backend_ok w \<and> i < length (running w)")
  case False
  then show ?thesis by (auto simp: worker_finish_def)
next
  case True
  then have split: "running w = take i (running w) @ (running w ! i) # drop (Suc i) (running w)"
    by (simp add: id_take_nth_drop)
  show ?thesis
    apply (rule disjI2)
    apply (rule exI [of _ "take i (running w)"])
    apply (rule exI [of _ "running w ! i"])
    apply (rule exI [of _ "drop (Suc i) (running w)"])
    using True split
    apply (auto simp: worker_finish_def task_return_def registered_def Let_def mark_as_failure_def
        store_result_def trans_zh_to_en_async_return_raises trans_en_to_zh_async_return_raises
        summarize_async_return_raises)
    done
qed


section \<open>Invariants of executions\<close>

lemma submitted_ids_snoc: "submitted_ids (evs @ [e]) = submitted_ids evs @ submitted_id e"
  by (simp add: submitted_ids_def)

lemma poll_effect: "snd (get_task_result tid w) = w"
  by (simp add: get_task_result_def AsyncResult_def)

lemma stored_ok_processing [simp]: "stored_ok processing_meta"
  by (simp add: stored_ok_def)

lemma stored_ok_failure [simp]: "stored_ok \<lparr>meta_status = ''FAILURE'', meta_result = PExc e\<rparr>"
  by (simp add: stored_ok_def)

lemma inv_ids_step: "inv_ids evs w \<Longrightarrow> inv_ids (evs @ [e]) (step trs w e)"
proof (cases e)
  case (Submit tt req nid)
  assume "inv_ids evs w"
  with Submit submit_effect [of tt req nid w] show ?thesis
    by (auto simp: inv_ids_def submitted_ids_snoc)
next
  case Dequeue
  assume "inv_ids evs w"
  with Dequeue dequeue_effect [of w] show ?thesis
    by (auto simp: inv_ids_def submitted_ids_snoc split: if_splits)
next
  case (Finish i)
  assume "inv_ids evs w"
  with Finish finish_effect [of trs i w] show ?thesis
    by (auto simp: inv_ids_def submitted_ids_snoc split: if_splits)
next
  case (Poll tid)
  assume "inv_ids evs w"
  with Poll show ?thesis
    by (auto simp: inv_ids_def submitted_ids_snoc poll_effect)
next
  case (Infra b r)
  assume "inv_ids evs w"
  with Infra show ?thesis
    by (auto simp: inv_ids_def submitted_ids_snoc)
qed

lemma inv_ids_fresh:
  assumes "inv_ids evs w" and "nid \<notin> set (submitted_ids evs)"
  shows "backend w nid = None" and "\<forall>m \<in> set (queue w) \<union> set (running w). msg_id m \<noteq> nid"
  using assms by (cases "backend w nid"; auto simp: inv_ids_def)+

lemma distinct_head_neq: "distinct (map f (m # rest)) \<Longrightarrow> x \<in> set rest \<Longrightarrow> f x \<noteq> f m"
  by (metis distinct.simps(2) imageI list.simps(9) list.set_map)

lemma distinct_mid_neq:
  "distinct (map f (as @ m # bs)) \<Longrightarrow> x \<in> set as \<union> set bs \<Longrightarrow> f x \<noteq> f m"
  by (metis Un_iff distinct_head_neq distinct_append map_append list.simps(9) imageI list.set_map
        disjoint_iff list.set_intros(1))

lemma inv_life_submit:
  assumes "inv_life w" and "backend w nid = None"
    and "\<forall>m \<in> set (queue w) \<union> set (running w). msg_id m \<noteq> nid"
  shows "inv_life (w\<lparr>queue := queue w @ [\<lparr>msg_id = nid, msg_task = name, msg_arg = arg\<rparr>]\<rparr>)"
  using assms by (auto simp: inv_life_def)

lemma inv_life_dequeue:
  assumes "inv_life w" and q: "queue w = m # rest" and "registered (msg_task m)"
  shows "inv_life (w\<lparr>queue := rest, backend := (backend w)(msg_id m := Some processing_meta),
                     running := running w @ [m]\<rparr>)"
proof -
  from assms have none: "backend w (msg_id m) = None"
    and run: "\<forall>x \<in> set (running w). backend w (msg_id x) = Some processing_meta"
    by (auto simp: inv_life_def)
  from assms have "distinct (map msg_id (m # rest))"
    by (simp add: inv_life_def)
  then have rest: "\<forall>x \<in> set rest. msg_id x \<noteq> msg_id m"
    using distinct_head_neq [of msg_id m rest] by blast
  from none run have other: "\<forall>x \<in> set (running w). msg_id x \<noteq> msg_id m"
    by auto
  from assms have d: "distinct (map msg_id rest)" "distinct (map msg_id (running w))"
    and b: "\<forall>x \<in> set rest. backend w (msg_id x) = None"
    and r: "\<forall>x \<in> set (running w). registered (msg_task x)"
    by (auto simp: inv_life_def)
  have "distinct (map msg_id (running w @ [m]))"
    using d other by auto
  moreover have "\<forall>x \<in> set rest. ((backend w)(msg_id m := Some processing_meta)) (msg_id x) = None"
    using rest b by simp
  moreover have "\<forall>x \<in> set (running w @ [m]).
      ((backend w)(msg_id m := Some processing_meta)) (msg_id x) = Some processing_meta
      \<and> registered (msg_task x)"
    using run r assms(3) by simp
  ultimately show ?thesis
    using d by (simp add: inv_life_def)
qed

lemma inv_life_drop_head:
  assumes "inv_life w" and q: "queue w = m # rest"
  shows "inv_life (w\<lparr>queue := rest\<rparr>)"
  using assms by (simp add: inv_life_def)

lemma inv_life_finish:
  assumes "inv_life w" and r: "running w = as @ m # bs"
  shows "inv_life (w\<lparr>running := as @ bs,
                     backend := (backend w)(msg_id m := Some meta)\<rparr>)"
proof -
  from assms have some: "backend w (msg_id m) = Some processing_meta"
    and "\<forall>x \<in> set (queue w). backend w (msg_id x) = None"
    by (auto simp: inv_life_def)
  then have q: "\<forall>x \<in> set (queue w). msg_id x \<noteq> msg_id m"
    by auto
  from assms have dd: "distinct (map msg_id (as @ m # bs))"
    by (simp add: inv_life_def)
  then have other: "\<forall>x \<in> set as \<union> set bs. msg_id x \<noteq> msg_id m"
    using distinct_mid_neq [of msg_id as m bs] by blast
  from dd have d: "distinct (map msg_id (as @ bs))"
    by auto
  from assms have b: "\<forall>x \<in> set (queue w). backend w (msg_id x) = None"
    and p: "\<forall>x \<in> set as \<union> set bs. backend w (msg_id x) = Some processing_meta
              \<and> registered (msg_task x)"
    and dq: "distinct (map msg_id (queue w))"
    by (auto simp: inv_life_def)
  have "\<forall>x \<in> set (queue w). ((backend w)(msg_id m := Some meta)) (msg_id x) = None"
    using q b by simp
  moreover have "\<forall>x \<in> set (as @ bs).
      ((backend w)(msg_id m := Some meta)) (msg_id x) = Some processing_meta
      \<and> registered (msg_task x)"
    using other p by simp
  ultimately show ?thesis
    using d dq by (simp add: inv_life_def)
qed

lemma inv_life_finish_drop:
  assumes "inv_life w" and r: "running w = as @ m # bs"
  shows "inv_life (w\<lparr>running := as @ bs\<rparr>)"
  using assms by (auto simp: inv_life_def)

lemma inv_life_step:
  assumes "inv_ids evs w" and "inv_life w"
    and "set (submitted_id e) \<inter> set (submitted_ids evs) = {}"
  shows "inv_life (step trs w e)"
proof (cases e)
  case (Submit tt req nid)
  with assms(3) have fresh: "nid \<notin> set (submitted_ids evs)" by simp
  note inv_ids_fresh [OF assms(1) fresh]
  with Submit submit_effect [of tt req nid w] assms(2) show ?thesis
    by (auto simp: inv_life_submit)
next
  case Dequeue
  with dequeue_effect [of w] assms(2) show ?thesis
    by (auto simp: inv_life_dequeue inv_life_drop_head)
next
  case (Finish i)
  with finish_effect [of trs i w] assms(2) show ?thesis
    by (auto simp: inv_life_finish inv_life_finish_drop)
next
  case (Poll tid)
  with assms(2) show ?thesis by (simp add: poll_effect)
next
  case (Infra b r)
  with assms(2) show ?thesis by (simp add: inv_life_def)
qed


lemma run_snoc: "run trs (evs @ [e]) w = step trs (run trs evs w) e"
  by (simp add: run_def)

lemma run_append: "run trs (evs1 @ evs2) w = run trs evs2 (run trs evs1 w)"
  by (simp add: run_def)

lemma inv_ids_run: "inv_ids evs (run trs evs init_world)"
proof (induction evs rule: rev_induct)
  case Nil
  show ?case by (simp add: run_def inv_ids_def init_world_def)
next
  case (snoc e evs)
  then show ?case by (simp add: run_snoc inv_ids_step)
qed

lemma inv_life_run: "distinct (submitted_ids evs) \<Longrightarrow> inv_life (run trs evs init_world)"
proof (induction evs rule: rev_induct)
  case Nil
  show ?case by (simp add: run_def inv_life_def init_world_def)
next
  case (snoc e evs)
  from snoc.prems have d: "distinct (submitted_ids evs)"
    and f: "set (submitted_id e) \<inter> set (submitted_ids evs) = {}"
    by (auto simp: submitted_ids_snoc)
  from snoc.IH [OF d] inv_ids_run [of evs trs] f show ?case
    by (simp add: run_snoc inv_life_step)
qed

section \<open>Only registered tasks are queued\<close>

lemma queue_registered_step:
  "list_all (\<lambda>m. registered (msg_task m)) (queue w) \<Longrightarrow>
   list_all (\<lambda>m. registered (msg_task m)) (queue (step trs w e))"
proof (cases e)
  case (Submit tt req nid)
  assume "list_all (\<lambda>m. registered (msg_task m)) (queue w)"
  with Submit submit_effect [of tt req nid w] show ?thesis by auto
next
  case Dequeue
  assume "list_all (\<lambda>m. registered (msg_task m)) (queue w)"
  with Dequeue dequeue_effect [of w] show ?thesis by auto
next
  case (Finish i)
  assume "list_all (\<lambda>m. registered (msg_task m)) (queue w)"
  with Finish finish_effect [of trs i w] show ?thesis by auto
next
  case (Poll p)
  assume "list_all (\<lambda>m. registered (msg_task m)) (queue w)"
  with Poll show ?thesis by (simp add: poll_effect)
next
  case (Infra b r)
  assume "list_all (\<lambda>m. registered (msg_task m)) (queue w)"
  with Infra show ?thesis by simp
qed

lemma queue_registered_run:
  "list_all (\<lambda>m. registered (msg_task m)) (queue (run trs evs init_world))"
proof (induction evs rule: rev_induct)
  case Nil
  show ?case by (simp add: run_def init_world_def)
next
  case (snoc e evs)
  then show ?case by (simp add: run_snoc queue_registered_step)
qed

text \<open>
  Claim C10 as stated gives the 400 response for every task type outside the three
  kinds. The text is read before the type is tested (lines 236 and 237 come before line
  247), so with a body that is not a JSON object the answer is the 500 response.
\<close>

theorem unknown_kind_non_object_body_500:
  "http_status (fst (create_async_task ''translate'' (Json (PList [])) ''T'' init_world)) = Some 500
   \<and> http_status (fst (create_async_task ''translate'' (Json (PList [])) ''T'' init_world))
       \<noteq> Some 400"
  by (simp add: create_async_task_def get_json_def py_get_def bind_exn_def unavailable_def
        jsonify_def returning_def http_status_def)

text \<open>
  Claim C10, as amended: for every task type outside zh_to_en, en_to_zh and summarize and
  every request, \<^verbatim>\<open>create_async_task\<close> answers with status 400 when the body is a JSON
  object and with status 500 when it is not, and leaves the state, the queue included, as
  it was; and in every state that an execution reaches, every queued message names one
  of the three registered tasks.
\<close>

theorem create_async_task_unknown_kind_rejected:
  "task_type \<notin> {''zh_to_en'', ''en_to_zh'', ''summarize''} \<Longrightarrow>
   http_status (fst (create_async_task task_type req new_id w)) =
     Some (case request_text req of Inr t \<Rightarrow> 400 | Inl e \<Rightarrow> 500)
   \<and> snd (create_async_task task_type req new_id w) = w
   \<and> list_all (\<lambda>m. registered (msg_task m)) (queue (run trs evs init_world))"
  by (simp add: create_async_task_def request_text_def jsonify_def returning_def try_except_def
        http_status_def unavailable_def queue_registered_run split: sum.splits)

theorem create_async_task_unknown_kind_rejected_witness:
  "http_status (fst (create_async_task ''translate'' (Json (PDict [(''text'', PStr ''abc'')]))
                       ''T'' init_world)) = Some 400
   \<and> snd (create_async_task ''translate'' (Json (PDict [(''text'', PStr ''abc'')]))
            ''T'' init_world) = init_world
   \<and> http_status (fst (create_async_task ''translate'' BadBody ''T'' init_world)) = Some 500
   \<and> snd (create_async_task ''translate'' BadBody ''T'' init_world) = init_world
   \<and> list_all (\<lambda>m. registered (msg_task m))
        (queue (run demo_trs
           [Submit ''translate'' (Json (PDict [(''text'', PStr ''abc'')])) ''T'',
            Submit ''zh_to_en'' (Json (PDict [(''text'', PStr ''abc'')])) ''U''] init_world))"
  using create_async_task_unknown_kind_rejected
          [of "''translate''" "Json (PDict [(''text'', PStr ''abc'')])" "''T''" init_world demo_trs
              "[Submit ''translate'' (Json (PDict [(''text'', PStr ''abc'')])) ''T'',
                Submit ''zh_to_en'' (Json (PDict [(''text'', PStr ''abc'')])) ''U'']"]
        create_async_task_unknown_kind_rejected
          [of "''translate''" BadBody "''T''" init_world demo_trs "[]"]
  by (simp add: request_text_def get_json_def py_get_def bind_exn_def)

section \<open>What the status query answers\<close>

lemma poll_none:
  "backend_ok w \<Longrightarrow> backend w tid = None \<Longrightarrow> poll tid w = pending_response"
  by (simp add: poll_def get_task_result_def AsyncResult_def bind_exn_def try_except_def
        jsonify_def render_task_def pending_response_def)

lemma poll_processing:
  "backend_ok w \<Longrightarrow> backend w tid = Some processing_meta \<Longrightarrow>
   poll tid w =
     Inr \<lparr>body = envelope 200 msg_ok (PDict [(''status'', PStr ''processing''), (''result'', PNone)]),
          status_code = 200\<rparr>"
  by (simp add: poll_def get_task_result_def AsyncResult_def bind_exn_def try_except_def
        jsonify_def render_task_def processing_meta_def)

lemma poll_failure:
  "backend_ok w \<Longrightarrow> backend w tid = Some m \<Longrightarrow> meta_status m = ''FAILURE'' \<Longrightarrow>
   meta_result m = PExc e \<Longrightarrow>
   poll tid w =
     Inr \<lparr>body = envelope 200 msg_ok
               (PDict [(''status'', PStr ''failed''), (''result'', PNone),
                       (''error'', PStr (exn_message e))]),
          status_code = 200\<rparr>"
  by (simp add: poll_def get_task_result_def AsyncResult_def bind_exn_def try_except_def
        jsonify_def render_task_def)

lemma poll_down:
  "\<not> backend_ok w \<Longrightarrow>
   poll tid w = Inr \<lparr>body = envelope 500 msg_result_failed PNone, status_code = 500\<rparr>"
  by (simp add: poll_def get_task_result_def AsyncResult_def bind_exn_def try_except_def
        jsonify_def returning_def)

lemma poll_cong:
  "backend_ok w = backend_ok w' \<Longrightarrow> backend w tid = backend w' tid \<Longrightarrow> poll tid w = poll tid w'"
  by (simp add: poll_def get_task_result_def AsyncResult_def)

lemma entry_of_envelope [simp]:
  "entry_of k (Inr \<lparr>body = envelope c msg (PDict kvs), status_code = sc\<rparr>) = map_of kvs k"
  by (simp add: entry_of_def data_of_def envelope_def)

lemma entry_of_envelope_none [simp]:
  "entry_of k (Inr \<lparr>body = envelope c msg PNone, status_code = sc\<rparr>) = None"
  by (simp add: entry_of_def data_of_def envelope_def)

lemma stored_ok_cases:
  assumes "stored_ok m"
  obtains "m = processing_meta" | e where "meta_status m = ''FAILURE''" "meta_result m = PExc e"
  using assms by (auto simp: stored_ok_def split: pyval.splits)

lemma outcome_exclusive_stored:
  assumes "backend_ok w" and "\<forall>m. backend w tid = Some m \<longrightarrow> stored_ok m"
  shows "outcome_exclusive (poll tid w)"
proof (cases "backend w tid")
  case None
  with assms(1) show ?thesis
    by (simp add: poll_none pending_response_def outcome_exclusive_def)
next
  case (Some m)
  with assms(2) have "stored_ok m" by simp
  then show ?thesis
  proof (cases rule: stored_ok_cases)
    case 1
    with Some assms(1) show ?thesis
      by (simp add: poll_processing outcome_exclusive_def)
  next
    case (2 e)
    with Some assms(1) show ?thesis
      by (simp add: poll_failure [of w tid m e] outcome_exclusive_def)
  qed
qed

text \<open>
  In the states that executions of app.py reach, the response is exclusive in the sense
  of \<open>outcome_exclusive\<close>.
\<close>

lemma reachable_outcome_exclusive:
  "backend_ok (run trs evs init_world) \<Longrightarrow> outcome_exclusive (poll tid (run trs evs init_world))"
  using inv_ids_run [of evs trs] by (intro outcome_exclusive_stored) (auto simp: inv_ids_def)


text \<open>
  Claim C3, as amended: for every task id that no submission has drawn, in every state
  that an execution reaches and with the backend reachable, the status query answers
  with the \<^verbatim>\<open>pending\<close> response: status 200, status \<^verbatim>\<open>pending\<close>, null result.
\<close>

theorem unknown_task_id_polls_pending:
  "tid \<notin> set (submitted_ids evs) \<Longrightarrow> backend_ok (run trs evs init_world) \<Longrightarrow>
   poll tid (run trs evs init_world) = pending_response"
  using inv_ids_run [of evs trs] inv_ids_fresh(1) [of evs "run trs evs init_world" tid]
  by (simp add: poll_none)


section \<open>The lifecycle of a task\<close>

lemma stored_state_known:
  assumes "inv_ids evs w"
  shows "stored_state w tid \<in> {''PENDING'', ''PROCESSING'', ''SUCCESS'', ''FAILURE''}"
proof (cases "backend w tid")
  case None
  then show ?thesis by (simp add: stored_state_def)
next
  case (Some m)
  with assms have "stored_ok m" by (simp add: inv_ids_def)
  then show ?thesis
    using Some by (cases rule: stored_ok_cases) (simp_all add: stored_state_def processing_meta_def)
qed

lemma submitted_ids_append: "submitted_ids (xs @ ys) = submitted_ids xs @ submitted_ids ys"
  by (simp add: submitted_ids_def)

lemma dequeue_backend:
  assumes "inv_life w"
  shows "backend (worker_dequeue w) tid = backend w tid \<or>
     (backend w tid = None \<and> backend (worker_dequeue w) tid = Some processing_meta)"
proof -
  from dequeue_effect [of w] consider
      "worker_dequeue w = w"
    | m rest where "queue w = m # rest" "worker_dequeue w = w\<lparr>queue := rest\<rparr>"
    | m rest where "queue w = m # rest"
        "worker_dequeue w =
          w\<lparr>queue := rest, backend := (backend w)(msg_id m := Some processing_meta),
            running := running w @ [m]\<rparr>"
    by blast
  then show ?thesis
  proof cases
    case 1
    then show ?thesis by simp
  next
    case 2
    then show ?thesis by simp
  next
    case 3
    with assms have "backend w (msg_id m) = None" by (simp add: inv_life_def)
    with 3 show ?thesis by (cases "tid = msg_id m") simp_all
  qed
qed

lemma finish_backend:
  assumes "inv_life w"
  shows "backend (worker_finish trs i w) tid = backend w tid \<or>
     (backend w tid = Some processing_meta \<and>
      (\<exists>x. backend (worker_finish trs i w) tid =
            Some \<lparr>meta_status = ''FAILURE'', meta_result = PExc x\<rparr>))"
proof -
  from finish_effect [of trs i w] consider
      "worker_finish trs i w = w"
    | as m bs where "running w = as @ m # bs" "worker_finish trs i w = w\<lparr>running := as @ bs\<rparr>"
    | as m bs x where "running w = as @ m # bs"
        "worker_finish trs i w =
          w\<lparr>running := as @ bs,
            backend := (backend w)(msg_id m :=
               Some \<lparr>meta_status = ''FAILURE'', meta_result = PExc x\<rparr>)\<rparr>"
    by blast
  then show ?thesis
  proof cases
    case 1
    then show ?thesis by simp
  next
    case 2
    then show ?thesis by simp
  next
    case 3
    with assms have "backend w (msg_id m) = Some processing_meta" by (simp add: inv_life_def)
    with 3 show ?thesis by (cases "tid = msg_id m") simp_all
  qed
qed

lemma submit_backend: "backend (snd (create_async_task tt req nid w)) = backend w"
  using submit_effect [of tt req nid w] by auto

lemma lifecycle_step_step:
  assumes "inv_life w"
  shows "lifecycle_step (stored_state w tid) (stored_state (step trs w e) tid)"
proof (cases e)
  case (Submit tt req nid)
  then show ?thesis
    by (simp add: lifecycle_step_def stored_state_def submit_backend)
next
  case Dequeue
  with dequeue_backend [OF assms, of tid] show ?thesis
    by (auto simp: lifecycle_step_def stored_state_def processing_meta_def)
next
  case (Finish i)
  with finish_backend [OF assms, of trs i tid] show ?thesis
    by (auto simp: lifecycle_step_def stored_state_def processing_meta_def)
next
  case (Poll p)
  then show ?thesis by (simp add: poll_effect lifecycle_step_def)
next
  case (Infra b r)
  then show ?thesis by (simp add: lifecycle_step_def stored_state_def)
qed

lemma terminal_kept_step:
  assumes "inv_life w" and "backend w tid = Some m" and "meta_status m = ''FAILURE''"
  shows "backend (step trs w e) tid = Some m"
proof (cases e)
  case (Submit tt req nid)
  with assms(2) show ?thesis by (simp add: submit_backend)
next
  case Dequeue
  with dequeue_backend [OF assms(1), of tid] assms(2) show ?thesis by auto
next
  case (Finish i)
  with finish_backend [OF assms(1), of trs i tid] assms(2,3) show ?thesis
    by (auto simp: processing_meta_def)
next
  case (Poll p)
  with assms(2) show ?thesis by (simp add: poll_effect)
next
  case (Infra b r)
  with assms(2) show ?thesis by simp
qed

lemma terminal_kept_run:
  assumes "distinct (submitted_ids (evs1 @ evs2))"
    and "backend (run trs evs1 init_world) tid = Some m" and "meta_status m = ''FAILURE''"
  shows "backend (run trs (evs1 @ evs2) init_world) tid = Some m"
  using assms(1)
proof (induction evs2 rule: rev_induct)
  case Nil
  from assms(2) show ?case by simp
next
  case (snoc e evs2)
  from snoc.prems have d: "distinct (submitted_ids (evs1 @ evs2))"
    by (auto simp: submitted_ids_append)
  from snoc.IH [OF d] inv_life_run [OF d, of trs] assms(3)
  have "backend (step trs (run trs (evs1 @ evs2) init_world) e) tid = Some m"
    by (rule_tac terminal_kept_step) 
  then show ?case
    by (simp add: run_def)
qed

lemma terminal_response_stored:
  assumes "terminal_response (poll tid w)" and "\<forall>m. backend w tid = Some m \<longrightarrow> stored_ok m"
  shows "backend_ok w \<and> (\<exists>m. backend w tid = Some m \<and> meta_status m = ''FAILURE'')"
proof (cases "backend_ok w")
  case False
  with assms(1) show ?thesis by (simp add: poll_down terminal_response_def)
next
  case True
  show ?thesis
  proof (cases "backend w tid")
    case None
    with True assms(1) show ?thesis
      by (simp add: poll_none pending_response_def terminal_response_def)
  next
    case (Some m)
    with assms(2) have "stored_ok m" by simp
    then show ?thesis
    proof (cases rule: stored_ok_cases)
      case 1
      with Some True assms(1) show ?thesis
        by (simp add: poll_processing terminal_response_def)
    next
      case (2 e)
      with Some True show ?thesis by simp
    qed
  qed
qed

text \<open>
  Claim C7: in an execution whose submissions draw pairwise distinct task ids, and for
  every task id: the stored state is one of Pending, Processing, Success and Failure;
  each event leaves it as it is or moves it from Pending to Processing or from Processing
  to Success or Failure, so nothing leaves a terminal state and nothing skips
  Processing; and once a status query has answered \<^verbatim>\<open>completed\<close> or \<^verbatim>\<open>failed\<close>, every
  later query that reaches the backend gives that same response.
\<close>

theorem task_lifecycle_monotonic:
  assumes "distinct (submitted_ids (evs1 @ e # evs2))"
  shows "stored_state (run trs evs1 init_world) tid \<in> {''PENDING'', ''PROCESSING'', ''SUCCESS'', ''FAILURE''}
     \<and> lifecycle_step (stored_state (run trs evs1 init_world) tid)
                      (stored_state (run trs (evs1 @ [e]) init_world) tid)
     \<and> (terminal_response (poll tid (run trs evs1 init_world)) \<and>
        backend_ok (run trs (evs1 @ e # evs2) init_world) \<longrightarrow>
        poll tid (run trs (evs1 @ e # evs2) init_world) = poll tid (run trs evs1 init_world))"
proof (intro conjI impI)
  from assms have d1: "distinct (submitted_ids evs1)"
    by (simp add: submitted_ids_append)
  show "stored_state (run trs evs1 init_world) tid \<in> {''PENDING'', ''PROCESSING'', ''SUCCESS'', ''FAILURE''}"
    using inv_ids_run by (rule stored_state_known)
  show "lifecycle_step (stored_state (run trs evs1 init_world) tid)
          (stored_state (run trs (evs1 @ [e]) init_world) tid)"
    using inv_life_run [OF d1, of trs] by (simp add: run_snoc lifecycle_step_step)
  assume t: "terminal_response (poll tid (run trs evs1 init_world)) \<and>
        backend_ok (run trs (evs1 @ e # evs2) init_world)"
  have "\<forall>m. backend (run trs evs1 init_world) tid = Some m \<longrightarrow> stored_ok m"
    using inv_ids_run [of evs1 trs] by (simp add: inv_ids_def)
  with t terminal_response_stored [of tid "run trs evs1 init_world"]
  obtain m where ok: "backend_ok (run trs evs1 init_world)"
    and m: "backend (run trs evs1 init_world) tid = Some m" "meta_status m = ''FAILURE''"
    by auto
  from terminal_kept_run [OF assms m]
  have "backend (run trs (evs1 @ e # evs2) init_world) tid = backend (run trs evs1 init_world) tid"
    using m by simp
  with t ok show "poll tid (run trs (evs1 @ e # evs2) init_world) = poll tid (run trs evs1 init_world)"
    by (intro poll_cong) simp_all
qed


section \<open>Concrete executions\<close>

lemmas run_eval =
  run_def init_world_def create_async_task_def get_json_def py_get_def
  bind_exn_def ni_hao_def task_submitted_def delay_def jsonify_def try_except_def
  worker_dequeue_def task_begin_def trans_zh_to_en_async_begin_def
  trans_en_to_zh_async_begin_def update_state_def
  store_result_def worker_finish_def task_return_def trans_zh_to_en_async_return_raises
  trans_en_to_zh_async_return_raises
  mark_as_failure_def get_task_result_def AsyncResult_def render_task_def

text \<open>
  Claim C3 as stated asks for a not-found condition, distinct from \<^verbatim>\<open>pending\<close>, for an
  id that was never issued. In the initial state, where no id was issued, the query for
  an id answers 200 with status \<^verbatim>\<open>pending\<close>, the very response given for a task that
  was submitted and has not started.
\<close>

theorem unknown_task_id_not_distinguished:
  "poll ''no-such-task'' init_world = pending_response
   \<and> http_status (poll ''no-such-task'' init_world) = Some 200
   \<and> entry_of ''status'' (poll ''no-such-task'' init_world) = Some (PStr ''pending'')
   \<and> poll ''no-such-task'' init_world =
       poll ''T'' (run demo_trs [Submit ''zh_to_en'' (Json (PDict [(''text'', PStr ni_hao)])) ''T'']
                     init_world)"
  by (simp add: poll_def pending_response_def http_status_def run_eval)

theorem unknown_task_id_polls_pending_witness:
  "''no-such-task'' \<notin> set (submitted_ids
        [Submit ''zh_to_en'' (Json (PDict [(''text'', PStr ni_hao)])) ''T'', Dequeue])
   \<and> backend_ok (run demo_trs
        [Submit ''zh_to_en'' (Json (PDict [(''text'', PStr ni_hao)])) ''T'', Dequeue] init_world)
   \<and> poll ''no-such-task'' (run demo_trs
        [Submit ''zh_to_en'' (Json (PDict [(''text'', PStr ni_hao)])) ''T'', Dequeue] init_world)
      = pending_response"
proof -
  have h1: "''no-such-task'' \<notin> set (submitted_ids
        [Submit ''zh_to_en'' (Json (PDict [(''text'', PStr ni_hao)])) ''T'', Dequeue])"
    by (simp add: submitted_ids_def)
  have h2: "backend_ok (run demo_trs
        [Submit ''zh_to_en'' (Json (PDict [(''text'', PStr ni_hao)])) ''T'', Dequeue] init_world)"
    by (simp add: run_eval)
  from h1 h2 unknown_task_id_polls_pending [OF h1 h2] show ?thesis by simp
qed



theorem task_lifecycle_monotonic_witness:
  "distinct (submitted_ids
      ([Submit ''zh_to_en'' (Json (PDict [(''text'', PStr ni_hao)])) ''T'', Dequeue, Finish 0]
       @ Submit ''en_to_zh'' (Json (PDict [(''text'', PStr ''hello'')])) ''U''
       # [Dequeue, Poll ''T'']))
   \<and> stored_state (run demo_trs
         [Submit ''zh_to_en'' (Json (PDict [(''text'', PStr ni_hao)])) ''T'', Dequeue, Finish 0]
         init_world) ''T'' \<in> {''PENDING'', ''PROCESSING'', ''SUCCESS'', ''FAILURE''}
   \<and> lifecycle_step
        (stored_state (run demo_trs
           [Submit ''zh_to_en'' (Json (PDict [(''text'', PStr ni_hao)])) ''T'', Dequeue, Finish 0]
           init_world) ''T'')
        (stored_state (run demo_trs
           ([Submit ''zh_to_en'' (Json (PDict [(''text'', PStr ni_hao)])) ''T'', Dequeue, Finish 0]
            @ [Submit ''en_to_zh'' (Json (PDict [(''text'', PStr ''hello'')])) ''U''])
           init_world) ''T'')
   \<and> terminal_response (poll ''T'' (run demo_trs
         [Submit ''zh_to_en'' (Json (PDict [(''text'', PStr ni_hao)])) ''T'', Dequeue, Finish 0]
         init_world))
   \<and> backend_ok (run demo_trs
        ([Submit ''zh_to_en'' (Json (PDict [(''text'', PStr ni_hao)])) ''T'', Dequeue, Finish 0]
         @ Submit ''en_to_zh'' (Json (PDict [(''text'', PStr ''hello'')])) ''U''
         # [Dequeue, Poll ''T'']) init_world)
   \<and> poll ''T'' (run demo_trs
        ([Submit ''zh_to_en'' (Json (PDict [(''text'', PStr ni_hao)])) ''T'', Dequeue, Finish 0]
         @ Submit ''en_to_zh'' (Json (PDict [(''text'', PStr ''hello'')])) ''U''
         # [Dequeue, Poll ''T'']) init_world)
      = poll ''T'' (run demo_trs
         [Submit ''zh_to_en'' (Json (PDict [(''text'', PStr ni_hao)])) ''T'', Dequeue, Finish 0]
         init_world)"
proof -
  have d: "distinct (submitted_ids
      ([Submit ''zh_to_en'' (Json (PDict [(''text'', PStr ni_hao)])) ''T'', Dequeue, Finish 0]
       @ Submit ''en_to_zh'' (Json (PDict [(''text'', PStr ''hello'')])) ''U''
       # [Dequeue, Poll ''T'']))"
    by (simp add: submitted_ids_def)
  have t: "terminal_response (poll ''T'' (run demo_trs
         [Submit ''zh_to_en'' (Json (PDict [(''text'', PStr ni_hao)])) ''T'', Dequeue, Finish 0]
         init_world))"
    by (simp add: terminal_response_def poll_def run_eval)
  have b: "backend_ok (run demo_trs
        ([Submit ''zh_to_en'' (Json (PDict [(''text'', PStr ni_hao)])) ''T'', Dequeue, Finish 0]
         @ Submit ''en_to_zh'' (Json (PDict [(''text'', PStr ''hello'')])) ''U''
         # [Dequeue, Poll ''T'']) init_world)"
    by (simp add: run_eval)
  from d t b task_lifecycle_monotonic [OF d, of demo_trs "''T''"] show ?thesis by blast
qed

text \<open>The three states of one task, one after the other.\<close>

lemma lifecycle_example:
  "stored_state (run demo_trs
      [Submit ''zh_to_en'' (Json (PDict [(''text'', PStr ni_hao)])) ''T''] init_world) ''T''
     = ''PENDING''
   \<and> stored_state (run demo_trs
      [Submit ''zh_to_en'' (Json (PDict [(''text'', PStr ni_hao)])) ''T'', Dequeue] init_world) ''T''
     = ''PROCESSING''
   \<and> stored_state (run demo_trs
      [Submit ''zh_to_en'' (Json (PDict [(''text'', PStr ni_hao)])) ''T'', Dequeue, Finish 0]
      init_world) ''T''
     = ''FAILURE''"
  by (simp add: stored_state_def run_eval)

end
